theory Spec2Isabelle
  imports Main "HOL-Library.Sublist"
begin

section \<open>SCD test case generator: prompt builders, serving call and page script\<close>

text \<open>
  A shallow embedding of \<^verbatim>\<open>scd_qa_core.py\<close>. The module has four functions:
  \<^verbatim>\<open>call_databricks_llm\<close>, \<^verbatim>\<open>build_scd_type1_prompt\<close>,
  \<^verbatim>\<open>build_scd_type2_prompt\<close> and \<^verbatim>\<open>run_app\<close>.

  A Python \<^verbatim>\<open>str\<close> is modelled by its UTF-8 encoding, a \<^typ>\<open>string\<close>. The two
  characters of the templates beyond ASCII are the en dash (U+2013) and the bullet
  (U+2022); one string is a substring of another exactly when the encodings are, since
  UTF-8 is self-synchronising.
\<close>

subsection \<open>Text\<close>

definition en_dash :: string where
  "en_dash = [CHR 0xE2, CHR 0x80, CHR 0x93]"

definition bullet :: string where
  "bullet = [CHR 0xE2, CHR 0x80, CHR 0xA2]"

definition ellipsis :: string where
  "ellipsis = [CHR 0xE2, CHR 0x80, CHR 0xA6]"

text \<open>The emoji of the page's headings: U+1F9EA, U+2699 U+FE0F, U+1F522, U+23F3, U+26A1.\<close>

definition test_tube :: string where
  "test_tube = [CHR 0xF0, CHR 0x9F, CHR 0xA7, CHR 0xAA]"

definition gear :: string where
  "gear = [CHR 0xE2, CHR 0x9A, CHR 0x99, CHR 0xEF, CHR 0xB8, CHR 0x8F]"

definition input_numbers :: string where
  "input_numbers = [CHR 0xF0, CHR 0x9F, CHR 0x94, CHR 0xA2]"

definition hourglass :: string where
  "hourglass = [CHR 0xE2, CHR 0x8F, CHR 0xB3]"

definition high_voltage :: string where
  "high_voltage = [CHR 0xE2, CHR 0x9A, CHR 0xA1]"

subsection \<open>Exceptions, the page and the serving endpoint\<close>

text \<open>
  A raised exception carries its \<^verbatim>\<open>str()\<close>. The module has two kinds of handler: the
  bare \<^verbatim>\<open>except:\<close> of \<^verbatim>\<open>call_databricks_llm\<close> catches every exception, and
  \<^verbatim>\<open>except Exception as e\<close> of \<^verbatim>\<open>run_app\<close> catches the instances of
  \<^verbatim>\<open>Exception\<close> only. So the model keeps apart the instances of \<^verbatim>\<open>Exception\<close>
  and the exceptions that derive from \<^verbatim>\<open>BaseException\<close> alone (the system-exiting
  ones: \<^verbatim>\<open>KeyboardInterrupt\<close>, \<^verbatim>\<open>SystemExit\<close>, \<^verbatim>\<open>GeneratorExit\<close>).
\<close>

datatype exn = Exception string | SystemExiting string

text \<open>What a Streamlit call puts on the page, one constructor for each call the script makes.\<close>

datatype element =
    Title string
  | Caption string
  | Header string
  | Radio string "string list"
  | Info string
  | Subheader string
  | Columns nat
  | Text_Input string string
  | Text_Area string nat
  | Markdown string bool
  | Button string
  | Spinner string
  | Success string
  | Code string string
  | Error string

text \<open>
  The keyword arguments of \<^verbatim>\<open>serving_endpoints.query\<close>: the endpoint name and the list of
  dictionaries passed as \<^verbatim>\<open>inputs\<close>, a dictionary being the list of its items in
  insertion order.
\<close>

record query =
  endpoint_name :: string
  inputs :: "(string \<times> string) list list"

text \<open>
  The effects of the module are the elements drawn on the page and the queries made to the
  serving endpoint. A Python call takes the world and returns the value or the exception
  raised, and the world it leaves.
\<close>

record world =
  rendered :: "element list"
  queries :: "query list"

type_synonym 'a py = "world \<Rightarrow> (exn + 'a) \<times> world"

text \<open>
  The response object belongs to the Databricks SDK, so it is a parameter: what reading its
  attribute \<^verbatim>\<open>output_text\<close> gives (a value, or the exception raised, which is
  \<^verbatim>\<open>AttributeError\<close> when the object has no such attribute) and what \<^verbatim>\<open>str\<close>
  returns on it.
\<close>

record response =
  output_text :: "exn + string"
  to_str :: string

text \<open>
  The workspace is a parameter too: \<^verbatim>\<open>WorkspaceClient()\<close> either raises (host or token
  not resolved) or gives a client, and a query either raises or returns a response.
\<close>

record databricks =
  WorkspaceClient :: "exn option"
  serving_endpoints_query :: "query \<Rightarrow> exn + response"

text \<open>The values the widgets of the page return in a run of the script, by widget label.\<close>

record widgets =
  Select_SCD_Type :: string
  Source_Table :: string
  Target_Table :: string
  Business_Keys :: string
  Tracked_Columns :: string
  Additional_Rules :: string
  Effective_From :: string
  Current_Flag :: string
  Effective_To :: string
  Version_Column :: string
  Generate_Test_Cases :: bool

definition render :: "element list \<Rightarrow> world \<Rightarrow> world" where
  "render es w = w\<lparr>rendered := rendered w @ es\<rparr>"

subsection \<open>Configuration\<close>

definition MODEL_ENDPOINT_NAME :: string where
  "MODEL_ENDPOINT_NAME = ''deepseek-scd-qa''"

subsection \<open>The serving call\<close>

text \<open>
  \<^verbatim>\<open>
  w = WorkspaceClient()
  response = w.serving_endpoints.query(
      name=MODEL_ENDPOINT_NAME,
      inputs=[{"role": "user", "content": prompt}])
  try:
      return response.output_text
  except:
      return str(response)
  \<close>
\<close>

definition call_databricks_llm :: "databricks \<Rightarrow> string \<Rightarrow> string py" where
  "call_databricks_llm dbx prompt w =
     (case WorkspaceClient dbx of
        Some e \<Rightarrow> (Inl e, w)
      | None \<Rightarrow>
          (let q = \<lparr>endpoint_name = MODEL_ENDPOINT_NAME,
                     inputs = [[(''role'', ''user''), (''content'', prompt)]]\<rparr>;
               w' = w\<lparr>queries := queries w @ [q]\<rparr>
           in case serving_endpoints_query dbx q of
                Inl e \<Rightarrow> (Inl e, w')
              | Inr response \<Rightarrow>
                  (case output_text response of
                     Inr text \<Rightarrow> (Inr text, w')
                   | Inl e \<Rightarrow> (Inr (to_str response), w'))))"

subsection \<open>The prompt builders\<close>

text \<open>
  Each builder is one \<^verbatim>\<open>return\<close> of an f-string. A replacement field \<^verbatim>\<open>{x}\<close> with
  \<^verbatim>\<open>x\<close> a \<^verbatim>\<open>str\<close> yields \<^verbatim>\<open>x\<close>; the text starts with the line break that follows
  the opening quotes and ends with the one before the closing quotes.
\<close>

definition build_scd_type1_prompt ::
  "string \<Rightarrow> string \<Rightarrow> string \<Rightarrow> string \<Rightarrow> string \<Rightarrow> string py" where
  "build_scd_type1_prompt source_table target_table business_keys attribute_columns
     additional_rules w =
   (Inr (
        ''\<newline>'' @
        ''You are a senior Data QA Engineer.\<newline>'' @
        ''\<newline>'' @
        ''Generate detailed QA test cases to validate a Slowly Changing Dimension Type 1 (SCD1)\<newline>'' @
        ''load between the following tables.\<newline>'' @
        ''\<newline>'' @
        ''Source table: '' @ source_table @ ''\<newline>'' @
        ''Target table: '' @ target_table @ ''\<newline>'' @
        ''Business key columns: '' @ business_keys @ ''\<newline>'' @
        ''Attribute columns (overwritten on change): '' @ attribute_columns @ ''\<newline>'' @
        ''\<newline>'' @
        ''Additional rules:\<newline>'' @
        additional_rules @ ''\<newline>'' @
        ''\<newline>'' @
        ''Requirements:\<newline>'' @
        ''- Assume SCD1 implemented in PySpark + Delta on Databricks.\<newline>'' @
        ''- Generate 10'' @ en_dash @ ''15 test cases.\<newline>'' @
        ''- Include positive + negative scenarios.\<newline>'' @
        ''- Include:\<newline>'' @
        ''  '' @ bullet @ '' Initial load\<newline>'' @
        ''  '' @ bullet @ '' Incremental load\<newline>'' @
        ''  '' @ bullet @ '' Updates\<newline>'' @
        ''  '' @ bullet @ '' No-change rows\<newline>'' @
        ''  '' @ bullet @ '' Duplicate keys\<newline>'' @
        ''  '' @ bullet @ '' Nulls\<newline>'' @
        ''  '' @ bullet @ '' Data type issues\<newline>'' @
        ''\<newline>'' @
        ''Output format (markdown table):\<newline>'' @
        ''\<newline>'' @
        ''| Test Case ID | Scenario | Preconditions | Input Data Setup | Steps | Expected Result |\<newline>''), w)"

definition build_scd_type2_prompt ::
  "string \<Rightarrow> string \<Rightarrow> string \<Rightarrow> string \<Rightarrow> string \<Rightarrow> string \<Rightarrow> string \<Rightarrow> string \<Rightarrow> string
     \<Rightarrow> string py" where
  "build_scd_type2_prompt source_table target_table business_keys attribute_columns
     eff_from_col eff_to_col current_flag_col version_col additional_rules w =
   (Inr (
        ''\<newline>'' @
        ''You are a senior Data QA Engineer.\<newline>'' @
        ''\<newline>'' @
        ''Generate detailed QA test cases to validate an SCD Type 2 load.\<newline>'' @
        ''\<newline>'' @
        ''Source: '' @ source_table @ ''\<newline>'' @
        ''Target: '' @ target_table @ ''\<newline>'' @
        ''Business Keys: '' @ business_keys @ ''\<newline>'' @
        ''Tracked Columns: '' @ attribute_columns @ ''\<newline>'' @
        ''\<newline>'' @
        ''SCD2 Metadata:\<newline>'' @
        ''- Effective From: '' @ eff_from_col @ ''\<newline>'' @
        ''- Effective To: '' @ eff_to_col @ ''\<newline>'' @
        ''- Current Flag: '' @ current_flag_col @ ''\<newline>'' @
        ''- Version Column: '' @ version_col @ ''\<newline>'' @
        ''\<newline>'' @
        ''Additional Rules:\<newline>'' @
        additional_rules @ ''\<newline>'' @
        ''\<newline>'' @
        ''Requirements:\<newline>'' @
        ''- Assume PySpark + Delta Lake on Databricks\<newline>'' @
        ''- Generate 12'' @ en_dash @ ''18 cases\<newline>'' @
        ''- Cover:\<newline>'' @
        ''  '' @ bullet @ '' Initial load\<newline>'' @
        ''  '' @ bullet @ '' First insert\<newline>'' @
        ''  '' @ bullet @ '' Attribute change -> close old + open new\<newline>'' @
        ''  '' @ bullet @ '' Multiple historical changes\<newline>'' @
        ''  '' @ bullet @ '' Late-arriving data\<newline>'' @
        ''  '' @ bullet @ '' Overlapping ranges\<newline>'' @
        ''  '' @ bullet @ '' Current flag issues\<newline>'' @
        ''  '' @ bullet @ '' Duplicate keys\<newline>'' @
        ''  '' @ bullet @ '' Invalid effective dates\<newline>'' @
        ''\<newline>'' @
        ''Output format (markdown table):\<newline>'' @
        ''\<newline>'' @
        ''| Test Case ID | Scenario | Preconditions | Input Data Setup | Steps | Expected Result |\<newline>''), w)"

subsection \<open>The page script\<close>

text \<open>
  \<^verbatim>\<open>run_app\<close> draws the page from top to bottom and reads the widgets as it goes; the
  containers (\<^verbatim>\<open>st.sidebar\<close>, the columns, the spinner) only place the elements, so
  the model keeps the elements in the order of the calls. The metadata variables start as
  the empty string and are read from their widgets only when the radio says
  \<^verbatim>\<open>"SCD Type 2"\<close>. The builders are called outside the \<^verbatim>\<open>try\<close>;
  \<^verbatim>\<open>call_databricks_llm\<close>, \<^verbatim>\<open>st.success\<close> and \<^verbatim>\<open>st.code\<close> are inside it,
  and its handler is \<^verbatim>\<open>except Exception as e: st.error(f"Error: {e}")\<close>, where the
  replacement field yields \<^verbatim>\<open>str(e)\<close>. A Streamlit call draws its element and does
  not raise; a system-exiting exception passes the handler and ends the script before the
  footer is drawn.
\<close>

definition run_app :: "databricks \<Rightarrow> widgets \<Rightarrow> unit py" where
  "run_app dbx ui w0 =
     (let w1 = render
            [Title (test_tube @ '' SCD Test Case Generator (Databricks LLM)''),
             Caption ''Uses Databricks Model Serving + Workspace Token (no OpenAI).'',
             Header (gear @ '' Settings''),
             Radio ''Select SCD Type'' [''SCD Type 1'', ''SCD Type 2''],
             Info (''Using Databricks Serving Endpoint: `'' @ MODEL_ENDPOINT_NAME @ ''`''),
             Subheader (input_numbers @ '' Table & Column Metadata''),
             Columns 2,
             Text_Input ''Source Table'' ''src_customer_dim'',
             Text_Input ''Target Table'' ''dim_customer'',
             Text_Input ''Business Keys (comma separated)'' ''customer_id'',
             Text_Input ''Tracked / Overwritten Columns'' ''name,status,type'',
             Text_Area ''Additional Rules (optional)'' 100] w0;
          scd_type = Select_SCD_Type ui;
          source_table = Source_Table ui;
          target_table = Target_Table ui;
          business_keys = Business_Keys ui;
          attribute_columns = Tracked_Columns ui;
          additional_rules = Additional_Rules ui;
          (eff_from_col, eff_to_col, current_flag_col, version_col, w2) =
            (if scd_type = ''SCD Type 2''
             then (Effective_From ui, Effective_To ui, Current_Flag ui, Version_Column ui,
                   render
                     [Subheader (hourglass @ '' SCD2 Metadata Columns''),
                      Columns 2,
                      Text_Input ''Effective From'' ''eff_from_dt'',
                      Text_Input ''Current Flag'' ''is_current'',
                      Text_Input ''Effective To'' ''eff_to_dt'',
                      Text_Input ''Version Column'' ''version_num''] w1)
             else ('''', '''', '''', '''', w1));
          w3 = render [Markdown ''---'' False,
                       Button (high_voltage @ '' Generate Test Cases'')] w2;
          generate = Generate_Test_Cases ui;
          (outcome, w4) =
            (if generate
             then
               (let w5 = render [Spinner (''Calling Databricks LLM'' @ ellipsis)] w3;
                    (built, w6) =
                      (if scd_type = ''SCD Type 1''
                       then build_scd_type1_prompt source_table target_table business_keys
                              attribute_columns additional_rules w5
                       else build_scd_type2_prompt source_table target_table business_keys
                              attribute_columns eff_from_col eff_to_col
                              current_flag_col version_col additional_rules w5)
                in case built of
                     Inl e \<Rightarrow> (Inl e, w6)
                   | Inr prompt \<Rightarrow>
                       (case call_databricks_llm dbx prompt w6 of
                          (Inr result, w7) \<Rightarrow>
                            (Inr (), render [Success ''Generated!'',
                                             Code result ''markdown''] w7)
                        | (Inl (Exception description), w7) \<Rightarrow>
                            (Inr (), render [Error (''Error: '' @ description)] w7)
                        | (Inl (SystemExiting description), w7) \<Rightarrow>
                            (Inl (SystemExiting description), w7)))
             else (Inr (), w3))
      in case outcome of
           Inl e \<Rightarrow> (Inl e, w4)
         | Inr _ \<Rightarrow>
             (Inr (), render
                [Markdown ''<hr><p style='text-align:center;color:gray'>Built on Databricks LLM</p>''
                   True] w4))"

subsection \<open>Notions used to state the properties\<close>

text \<open>The value a call returns, when it returns one.\<close>

definition returned :: "(exn + 'a) \<times> world \<Rightarrow> 'a option" where
  "returned r = (case fst r of Inr v \<Rightarrow> Some v | Inl e \<Rightarrow> None)"

text \<open>A run of the script starts on an empty page, with no query made.\<close>

definition blank :: world where
  "blank = \<lparr>rendered = [], queries = []\<rparr>"

text \<open>Occurrence of a name in a text when the case of the ASCII letters is ignored.\<close>

definition ascii_lower :: "string \<Rightarrow> string" where
  "ascii_lower s =
     map (\<lambda>c. let n = (of_char c :: nat)
              in if 65 \<le> n \<and> n \<le> 90 then char_of (n + 32) else c) s"

definition occurs_ignoring_case :: "string \<Rightarrow> string \<Rightarrow> bool" where
  "occurs_ignoring_case name text = sublist (ascii_lower name) (ascii_lower text)"

text \<open>The header row of a markdown table with the given column headers.\<close>

definition markdown_header_row :: "string list \<Rightarrow> string" where
  "markdown_header_row headers = ''|'' @ concat (map (\<lambda>h. '' '' @ h @ '' |'') headers)"

text \<open>
  The form as it is first shown (every widget at its default, the radio on its first
  option), with the button pressed.
\<close>

definition pressed :: widgets where
  "pressed = \<lparr>Select_SCD_Type = ''SCD Type 1'', Source_Table = ''src_customer_dim'',
     Target_Table = ''dim_customer'', Business_Keys = ''customer_id'',
     Tracked_Columns = ''name,status,type'', Additional_Rules = '''',
     Effective_From = ''eff_from_dt'', Current_Flag = ''is_current'',
     Effective_To = ''eff_to_dt'', Version_Column = ''version_num'',
     Generate_Test_Cases = True\<rparr>"

text \<open>
  Three workspaces: one whose endpoint refuses the connection, one where the query is
  interrupted (\<^verbatim>\<open>str(KeyboardInterrupt())\<close> is the empty string), and one whose
  response has no attribute \<^verbatim>\<open>output_text\<close>.
\<close>

definition refusing :: databricks where
  "refusing = \<lparr>WorkspaceClient = None,
     serving_endpoints_query = (\<lambda>q. Inl (Exception ''connection refused''))\<rparr>"

definition interrupted :: databricks where
  "interrupted = \<lparr>WorkspaceClient = None,
     serving_endpoints_query = (\<lambda>q. Inl (SystemExiting ''''))\<rparr>"



section \<open>Properties\<close>

subsection \<open>Finding a text inside a concatenation\<close>

lemma sublist_skip: "sublist x ys \<Longrightarrow> sublist x (zs @ ys)"
  by (metis sublist_append)

lemma sublist_in_head: "sublist x zs \<Longrightarrow> sublist x (zs @ ys)"
  by (metis sublist_append)

lemma sublist_here2: "sublist (x @ y) (x @ y @ zs)"
  by (metis append_assoc sublist_append_rightI)

lemma sublist_here3: "sublist (x @ y @ z) (x @ y @ z @ zs)"
  by (metis append_assoc sublist_append_rightI)

lemma sublist_in_head3: "sublist x (a @ b @ c) \<Longrightarrow> sublist x (a @ b @ c @ zs)"
  by (metis append_assoc sublist_in_head)

lemma suffix_here2: "suffix (x @ y) (x @ y)"
  by simp

lemma suffix_skip: "suffix x ys \<Longrightarrow> suffix x (zs @ ys)"
  by (rule suffix_appendI)

lemma step_lit: "rest = c @ tail \<Longrightarrow> l @ rest = (l @ c) @ tail"
  by simp

lemma step_var: "rest = rest' \<Longrightarrow> x @ rest = [] @ x @ rest'"
  by simp

lemma returns_cong: "x = y \<Longrightarrow> (Inr x, w) = (Inr y, w)"
  by simp

lemma header_row_text:
  "markdown_header_row [''Test Case ID'', ''Scenario'', ''Preconditions'', ''Input Data Setup'',
       ''Steps'', ''Expected Result''] @ ''\<newline>''
   = ''| Test Case ID | Scenario | Preconditions | Input Data Setup | Steps | Expected Result |\<newline>''"
  by (simp add: markdown_header_row_def)

subsection \<open>The builders and the serving call leave the page alone\<close>

lemma build1_value:
  "fst (build_scd_type1_prompt s t k a r u) = fst (build_scd_type1_prompt s t k a r v)"
  by (simp add: build_scd_type1_prompt_def)

lemma build1_world: "snd (build_scd_type1_prompt s t k a r u) = u"
  by (simp add: build_scd_type1_prompt_def)

lemma build2_value:
  "fst (build_scd_type2_prompt s t k a ef et cf vc r u)
     = fst (build_scd_type2_prompt s t k a ef et cf vc r v)"
  by (simp add: build_scd_type2_prompt_def)

lemma build2_world: "snd (build_scd_type2_prompt s t k a ef et cf vc r u) = u"
  by (simp add: build_scd_type2_prompt_def)

lemma call_value:
  "fst (call_databricks_llm dbx p u) = fst (call_databricks_llm dbx p v)"
  by (simp add: call_databricks_llm_def Let_def split: option.splits sum.splits)

lemma call_rendered: "rendered (snd (call_databricks_llm dbx p u)) = rendered u"
  by (simp add: call_databricks_llm_def Let_def split: option.splits sum.splits)

lemma call_raises_at:
  "fst (call_databricks_llm dbx p u) = Inl x \<Longrightarrow> fst (call_databricks_llm dbx p v) = Inl x"
  using call_value [of dbx p u v] by simp

subsection \<open>The Type 1 prompt\<close>

text \<open>
  C1, as amended. For every source table, target table, business-key string,
  attribute-column string and rules text, \<^verbatim>\<open>build_scd_type1_prompt\<close> returns a string that
  contains the four field values verbatim and the seven scenario bullets in the template's
  own wording: Initial load, Incremental load, Updates, No-change rows, Duplicate keys,
  Nulls, Data type issues.
\<close>

theorem type1_prompt_contains:
  "\<exists>p. build_scd_type1_prompt s t k a r w = (Inr p, w)
     \<and> sublist s p \<and> sublist t p \<and> sublist k p \<and> sublist a p
     \<and> sublist (bullet @ '' Initial load\<newline>'') p
     \<and> sublist (bullet @ '' Incremental load\<newline>'') p
     \<and> sublist (bullet @ '' Updates\<newline>'') p
     \<and> sublist (bullet @ '' No-change rows\<newline>'') p
     \<and> sublist (bullet @ '' Duplicate keys\<newline>'') p
     \<and> sublist (bullet @ '' Nulls\<newline>'') p
     \<and> sublist (bullet @ '' Data type issues\<newline>'') p"
  unfolding build_scd_type1_prompt_def
  apply (intro exI conjI)
            apply (rule refl)
  by (rule sublist_append_rightI sublist_here2 | rule sublist_skip)+

text \<open>
  C1 as stated asks for the category names as the specification writes them. On the
  specification's own scenario the prompt does not contain the name
  \<^verbatim>\<open>data-type issues\<close>, with or without regard to letter case: the template says
  \<^verbatim>\<open>Data type issues\<close>.
\<close>

theorem type1_category_names_counterexample:
  "map_option (sublist ''data-type issues'')
     (returned (build_scd_type1_prompt ''src_customer_dim'' ''dim_customer'' ''customer_id''
        ''name,status,type'' '''' blank)) = Some False
   \<and> map_option (occurs_ignoring_case ''data-type issues'')
     (returned (build_scd_type1_prompt ''src_customer_dim'' ''dim_customer'' ''customer_id''
        ''name,status,type'' '''' blank)) = Some False"
  by code_simp

subsection \<open>The Type 2 prompt\<close>

text \<open>
  C2, as amended. For every input, \<^verbatim>\<open>build_scd_type2_prompt\<close> returns a string that
  contains the four field values and the four metadata column names verbatim, and the nine
  scenario bullets in the template's own wording: Initial load, First insert,
  Attribute change -> close old + open new, Multiple historical changes, Late-arriving data,
  Overlapping ranges, Current flag issues, Duplicate keys, Invalid effective dates.
\<close>

theorem type2_prompt_contains:
  "\<exists>p. build_scd_type2_prompt s t k a ef et cf vc r w = (Inr p, w)
     \<and> sublist s p \<and> sublist t p \<and> sublist k p \<and> sublist a p
     \<and> sublist ef p \<and> sublist et p \<and> sublist cf p \<and> sublist vc p
     \<and> sublist (bullet @ '' Initial load\<newline>'') p
     \<and> sublist (bullet @ '' First insert\<newline>'') p
     \<and> sublist (bullet @ '' Attribute change -> close old + open new\<newline>'') p
     \<and> sublist (bullet @ '' Multiple historical changes\<newline>'') p
     \<and> sublist (bullet @ '' Late-arriving data\<newline>'') p
     \<and> sublist (bullet @ '' Overlapping ranges\<newline>'') p
     \<and> sublist (bullet @ '' Current flag issues\<newline>'') p
     \<and> sublist (bullet @ '' Duplicate keys\<newline>'') p
     \<and> sublist (bullet @ '' Invalid effective dates\<newline>'') p"
  unfolding build_scd_type2_prompt_def
  apply (intro exI conjI)
                  apply (rule refl)
  by (rule sublist_append_rightI sublist_here2 | rule sublist_skip)+

text \<open>
  C2 as stated asks for the category names as the specification writes them. On the
  specification's own scenario four of the nine names do not occur in the prompt, even
  when letter case is ignored.
\<close>

theorem type2_category_names_counterexample:
  "map_option (occurs_ignoring_case ''attribute change (close-old/open-new)'')
     (returned (build_scd_type2_prompt ''src_customer_dim'' ''dim_customer'' ''customer_id''
        ''name,status,type'' ''eff_from_dt'' ''eff_to_dt'' ''is_current'' ''version_num'' ''''
        blank)) = Some False
   \<and> map_option (occurs_ignoring_case ''overlapping date ranges'')
     (returned (build_scd_type2_prompt ''src_customer_dim'' ''dim_customer'' ''customer_id''
        ''name,status,type'' ''eff_from_dt'' ''eff_to_dt'' ''is_current'' ''version_num'' ''''
        blank)) = Some False
   \<and> map_option (occurs_ignoring_case ''current-flag inconsistencies'')
     (returned (build_scd_type2_prompt ''src_customer_dim'' ''dim_customer'' ''customer_id''
        ''name,status,type'' ''eff_from_dt'' ''eff_to_dt'' ''is_current'' ''version_num'' ''''
        blank)) = Some False
   \<and> map_option (occurs_ignoring_case ''invalid effective-date values'')
     (returned (build_scd_type2_prompt ''src_customer_dim'' ''dim_customer'' ''customer_id''
        ''name,status,type'' ''eff_from_dt'' ''eff_to_dt'' ''is_current'' ''version_num'' ''''
        blank)) = Some False"
  by code_simp

subsection \<open>What both prompts say\<close>

text \<open>
  C3. For every input the Type 1 prompt contains the range 10-15 written with an en dash,
  in the line that asks for 10-15 test cases, and the Type 2 prompt contains the range
  12-18 written with an en dash, in the line that asks for 12-18 cases.
\<close>

theorem prompts_request_case_counts:
  "(\<exists>p. build_scd_type1_prompt s t k a r w = (Inr p, w)
      \<and> sublist (''10'' @ en_dash @ ''15'') p
      \<and> sublist (''- Generate 10'' @ en_dash @ ''15 test cases.\<newline>'') p)
   \<and> (\<exists>p. build_scd_type2_prompt s' t' k' a' ef et cf vc r' w' = (Inr p, w')
      \<and> sublist (''12'' @ en_dash @ ''18'') p
      \<and> sublist (''- Generate 12'' @ en_dash @ ''18 cases\<newline>'') p)"
  unfolding build_scd_type1_prompt_def build_scd_type2_prompt_def
  apply (intro exI conjI)
       apply (rule refl)
      prefer 3
      apply (rule refl)
  by (rule sublist_here3 | (rule sublist_in_head3, (code_simp; fail)) | rule sublist_skip)+

text \<open>
  C4. Both builders are deterministic and free of side effects: the value of a call does
  not depend on the world it is made in, so two calls with the same arguments return the
  same string, and a call leaves the world as it found it.
\<close>

theorem builders_deterministic_and_pure:
  "fst (build_scd_type1_prompt s t k a r w) = fst (build_scd_type1_prompt s t k a r w')
   \<and> snd (build_scd_type1_prompt s t k a r w) = w
   \<and> fst (build_scd_type2_prompt s t k a ef et cf vc r w)
       = fst (build_scd_type2_prompt s t k a ef et cf vc r w')
   \<and> snd (build_scd_type2_prompt s t k a ef et cf vc r w) = w"
  by (simp add: build_scd_type1_prompt_def build_scd_type2_prompt_def)

text \<open>
  C5. For every input, the prompt of either variant contains the role phrase
  \<^verbatim>\<open>senior Data QA Engineer\<close>, and its last line is the header row of a markdown table
  with exactly the six column headers Test Case ID, Scenario, Preconditions,
  Input Data Setup, Steps, Expected Result.
\<close>

theorem prompts_role_and_table_header:
  "(\<exists>p. build_scd_type1_prompt s t k a r w = (Inr p, w)
      \<and> sublist ''senior Data QA Engineer'' p
      \<and> suffix (''\<newline>'' @ markdown_header_row [''Test Case ID'', ''Scenario'',
            ''Preconditions'', ''Input Data Setup'', ''Steps'', ''Expected Result'']
            @ ''\<newline>'') p)
   \<and> (\<exists>p. build_scd_type2_prompt s' t' k' a' ef et cf vc r' w' = (Inr p, w')
      \<and> sublist ''senior Data QA Engineer'' p
      \<and> suffix (''\<newline>'' @ markdown_header_row [''Test Case ID'', ''Scenario'',
            ''Preconditions'', ''Input Data Setup'', ''Steps'', ''Expected Result'']
            @ ''\<newline>'') p)"
  unfolding build_scd_type1_prompt_def build_scd_type2_prompt_def header_row_text
  apply (intro exI conjI)
       apply (rule refl)
      prefer 3
      apply (rule refl)
  by ((rule sublist_in_head, (code_simp; fail)) | rule sublist_skip | rule suffix_here2
      | rule suffix_skip)+

text \<open>
  C9. Both builders are total over strings and interpolate every field as it is: there
  are fixed texts, the same for all inputs, such that for every combination of field
  values (the empty string included) the call returns, without raising, the fixed texts
  with the fields between them, whole and unchanged.
\<close>

theorem builders_total_and_verbatim:
  "(\<exists>c0 c1 c2 c3 c4 c5. \<forall>s t k a r w.
      build_scd_type1_prompt s t k a r w
        = (Inr (c0 @ s @ c1 @ t @ c2 @ k @ c3 @ a @ c4 @ r @ c5), w))
   \<and> (\<exists>c0 c1 c2 c3 c4 c5 c6 c7 c8 c9. \<forall>s t k a ef et cf vc r w.
      build_scd_type2_prompt s t k a ef et cf vc r w
        = (Inr (c0 @ s @ c1 @ t @ c2 @ k @ c3 @ a @ c4 @ ef @ c5 @ et @ c6 @ cf @ c7 @ vc
                  @ c8 @ r @ c9), w))"
  unfolding build_scd_type1_prompt_def build_scd_type2_prompt_def
  apply (intro conjI exI allI)
   apply (rule returns_cong, (rule step_var step_lit refl)+)+
  done

subsection \<open>The serving call\<close>




text \<open>
  C8. For every prompt, the query \<^verbatim>\<open>call_databricks_llm\<close> makes carries a message list of
  exactly one entry, whose role is \<^verbatim>\<open>user\<close> and whose content is the prompt, unchanged;
  it is the only query of the call. When \<^verbatim>\<open>WorkspaceClient()\<close> raises, no query is made.
\<close>

theorem call_sends_single_user_message:
  "(WorkspaceClient dbx = None \<longrightarrow>
      queries (snd (call_databricks_llm dbx prompt w))
        = queries w @ [\<lparr>endpoint_name = MODEL_ENDPOINT_NAME,
                         inputs = [[(''role'', ''user''), (''content'', prompt)]]\<rparr>])
   \<and> (WorkspaceClient dbx \<noteq> None \<longrightarrow>
      queries (snd (call_databricks_llm dbx prompt w)) = queries w)"
  by (auto simp add: call_databricks_llm_def Let_def split: option.splits sum.splits)

theorem call_sends_single_user_message_witness:
  "WorkspaceClient refusing = None
   \<and> queries (snd (call_databricks_llm refusing ''hello'' blank))
       = [\<lparr>endpoint_name = ''deepseek-scd-qa'',
           inputs = [[(''role'', ''user''), (''content'', ''hello'')]]\<rparr>]"
  using call_sends_single_user_message [where dbx = refusing and prompt = "''hello''"
      and w = blank]
  by (simp add: refusing_def blank_def MODEL_ENDPOINT_NAME_def)

subsection \<open>The page script\<close>

text \<open>
  C7, as amended. Let the button be pressed and \<^verbatim>\<open>call_databricks_llm\<close> be called on the
  prompt built from the form. When it raises an instance of \<^verbatim>\<open>Exception\<close>, \<^verbatim>\<open>run_app\<close>
  returns without raising; what it has drawn contains the error display \<^verbatim>\<open>Error: \<close>
  followed by the exception's description, and neither the success message nor the code
  block. When it raises an exception that derives from \<^verbatim>\<open>BaseException\<close> only,
  \<^verbatim>\<open>run_app\<close> does not catch it: the exception leaves \<^verbatim>\<open>run_app\<close>, and neither an
  error display nor a success result is drawn.
  (The outcome of the call does not depend on the page, so the world of the hypothesis is
  any world.)
\<close>

theorem run_app_shows_error:
  assumes "Generate_Test_Cases ui"
    and "Select_SCD_Type ui = ''SCD Type 1''
           \<and> fst (build_scd_type1_prompt (Source_Table ui) (Target_Table ui) (Business_Keys ui)
                 (Tracked_Columns ui) (Additional_Rules ui) u) = Inr prompt
         \<or> Select_SCD_Type ui = ''SCD Type 2''
           \<and> fst (build_scd_type2_prompt (Source_Table ui) (Target_Table ui) (Business_Keys ui)
                 (Tracked_Columns ui) (Effective_From ui) (Effective_To ui) (Current_Flag ui)
                 (Version_Column ui) (Additional_Rules ui) u) = Inr prompt"
  shows "(fst (call_databricks_llm dbx prompt u') = Inl (Exception description) \<longrightarrow>
          (\<exists>w' es. run_app dbx ui w = (Inr (), w')
             \<and> rendered w' = rendered w @ es
             \<and> Error (''Error: '' @ description) \<in> set es
             \<and> sublist description (''Error: '' @ description)
             \<and> (\<forall>m. Success m \<notin> set es) \<and> (\<forall>c l. Code c l \<notin> set es)))
       \<and> (fst (call_databricks_llm dbx prompt u') = Inl (SystemExiting description) \<longrightarrow>
          (\<exists>w' es. run_app dbx ui w = (Inl (SystemExiting description), w')
             \<and> rendered w' = rendered w @ es
             \<and> (\<forall>m. Error m \<notin> set es)
             \<and> (\<forall>m. Success m \<notin> set es) \<and> (\<forall>c l. Code c l \<notin> set es)))"
proof (intro conjI impI)
  assume r: "fst (call_databricks_llm dbx prompt u') = Inl (Exception description)"
  from assms(2) show "\<exists>w' es. run_app dbx ui w = (Inr (), w')
           \<and> rendered w' = rendered w @ es
           \<and> Error (''Error: '' @ description) \<in> set es
           \<and> sublist description (''Error: '' @ description)
           \<and> (\<forall>m. Success m \<notin> set es) \<and> (\<forall>c l. Code c l \<notin> set es)"
  proof
    assume t1: "Select_SCD_Type ui = ''SCD Type 1''
           \<and> fst (build_scd_type1_prompt (Source_Table ui) (Target_Table ui) (Business_Keys ui)
                 (Tracked_Columns ui) (Additional_Rules ui) u) = Inr prompt"
    have b: "build_scd_type1_prompt (Source_Table ui) (Target_Table ui) (Business_Keys ui)
                 (Tracked_Columns ui) (Additional_Rules ui) v = (Inr prompt, v)" for v
      using t1 build1_value [of _ _ _ _ _ u v] build1_world [of _ _ _ _ _ v]
      by (simp add: prod_eq_iff)
    show ?thesis
      using assms(1) t1
      by (simp add: run_app_def b case_prod_beta call_raises_at [OF r] render_def
            call_rendered sublist_Cons_right)
  next
    assume t2: "Select_SCD_Type ui = ''SCD Type 2''
           \<and> fst (build_scd_type2_prompt (Source_Table ui) (Target_Table ui) (Business_Keys ui)
                 (Tracked_Columns ui) (Effective_From ui) (Effective_To ui) (Current_Flag ui)
                 (Version_Column ui) (Additional_Rules ui) u) = Inr prompt"
    have b: "build_scd_type2_prompt (Source_Table ui) (Target_Table ui) (Business_Keys ui)
                 (Tracked_Columns ui) (Effective_From ui) (Effective_To ui) (Current_Flag ui)
                 (Version_Column ui) (Additional_Rules ui) v = (Inr prompt, v)" for v
      using t2 build2_value [of _ _ _ _ _ _ _ _ _ u v] build2_world [of _ _ _ _ _ _ _ _ _ v]
      by (simp add: prod_eq_iff)
    show ?thesis
      using assms(1) t2
      by (simp add: run_app_def b case_prod_beta call_raises_at [OF r] render_def
            call_rendered sublist_Cons_right)
  qed
next
  assume r: "fst (call_databricks_llm dbx prompt u') = Inl (SystemExiting description)"
  from assms(2) show "\<exists>w' es. run_app dbx ui w = (Inl (SystemExiting description), w')
           \<and> rendered w' = rendered w @ es
           \<and> (\<forall>m. Error m \<notin> set es)
           \<and> (\<forall>m. Success m \<notin> set es) \<and> (\<forall>c l. Code c l \<notin> set es)"
  proof
    assume t1: "Select_SCD_Type ui = ''SCD Type 1''
           \<and> fst (build_scd_type1_prompt (Source_Table ui) (Target_Table ui) (Business_Keys ui)
                 (Tracked_Columns ui) (Additional_Rules ui) u) = Inr prompt"
    have b: "build_scd_type1_prompt (Source_Table ui) (Target_Table ui) (Business_Keys ui)
                 (Tracked_Columns ui) (Additional_Rules ui) v = (Inr prompt, v)" for v
      using t1 build1_value [of _ _ _ _ _ u v] build1_world [of _ _ _ _ _ v]
      by (simp add: prod_eq_iff)
    show ?thesis
      using assms(1) t1
      by (simp add: run_app_def b case_prod_beta call_raises_at [OF r] render_def
            call_rendered)
  next
    assume t2: "Select_SCD_Type ui = ''SCD Type 2''
           \<and> fst (build_scd_type2_prompt (Source_Table ui) (Target_Table ui) (Business_Keys ui)
                 (Tracked_Columns ui) (Effective_From ui) (Effective_To ui) (Current_Flag ui)
                 (Version_Column ui) (Additional_Rules ui) u) = Inr prompt"
    have b: "build_scd_type2_prompt (Source_Table ui) (Target_Table ui) (Business_Keys ui)
                 (Tracked_Columns ui) (Effective_From ui) (Effective_To ui) (Current_Flag ui)
                 (Version_Column ui) (Additional_Rules ui) v = (Inr prompt, v)" for v
      using t2 build2_value [of _ _ _ _ _ _ _ _ _ u v] build2_world [of _ _ _ _ _ _ _ _ _ v]
      by (simp add: prod_eq_iff)
    show ?thesis
      using assms(1) t2
      by (simp add: run_app_def b case_prod_beta call_raises_at [OF r] render_def
            call_rendered)
  qed
qed

theorem run_app_shows_error_witness:
  "Generate_Test_Cases pressed
   \<and> fst (call_databricks_llm refusing
            (the (returned (build_scd_type1_prompt ''src_customer_dim'' ''dim_customer''
               ''customer_id'' ''name,status,type'' '''' blank))) blank)
       = Inl (Exception ''connection refused'')
   \<and> (\<exists>w' es. run_app refusing pressed blank = (Inr (), w')
           \<and> rendered w' = rendered blank @ es
           \<and> Error ''Error: connection refused'' \<in> set es
           \<and> sublist ''connection refused'' ''Error: connection refused''
           \<and> (\<forall>m. Success m \<notin> set es) \<and> (\<forall>c l. Code c l \<notin> set es))
   \<and> fst (call_databricks_llm interrupted
            (the (returned (build_scd_type1_prompt ''src_customer_dim'' ''dim_customer''
               ''customer_id'' ''name,status,type'' '''' blank))) blank)
       = Inl (SystemExiting '''')
   \<and> (\<exists>w' es. run_app interrupted pressed blank = (Inl (SystemExiting ''''), w')
           \<and> rendered w' = rendered blank @ es
           \<and> (\<forall>m. Error m \<notin> set es)
           \<and> (\<forall>m. Success m \<notin> set es) \<and> (\<forall>c l. Code c l \<notin> set es))"
  using run_app_shows_error [where ui = pressed and dbx = refusing and u = blank and u' = blank
      and w = blank and description = "''connection refused''"
      and prompt = "the (returned (build_scd_type1_prompt ''src_customer_dim'' ''dim_customer''
               ''customer_id'' ''name,status,type'' '''' blank))"]
    run_app_shows_error [where ui = pressed and dbx = interrupted and u = blank and u' = blank
      and w = blank and description = "''''"
      and prompt = "the (returned (build_scd_type1_prompt ''src_customer_dim'' ''dim_customer''
               ''customer_id'' ''name,status,type'' '''' blank))"]
  by (simp add: pressed_def refusing_def interrupted_def returned_def
        build_scd_type1_prompt_def call_databricks_llm_def)

text \<open>
  C7 as stated speaks of any exception. The handler is \<^verbatim>\<open>except Exception\<close>: when the
  query is interrupted, \<^verbatim>\<open>call_databricks_llm\<close> raises \<^verbatim>\<open>KeyboardInterrupt\<close>, which is
  not an instance of \<^verbatim>\<open>Exception\<close>; it leaves \<^verbatim>\<open>run_app\<close> uncaught and no error display
  is drawn.
\<close>

theorem run_app_system_exit_counterexample:
  "fst (call_databricks_llm interrupted
          (the (returned (build_scd_type1_prompt ''src_customer_dim'' ''dim_customer''
             ''customer_id'' ''name,status,type'' '''' blank))) blank)
     = Inl (SystemExiting '''')
   \<and> fst (run_app interrupted pressed blank) = Inl (SystemExiting '''')
   \<and> Error ''Error: '' \<notin> set (rendered (snd (run_app interrupted pressed blank)))"
  by (simp add: run_app_def pressed_def interrupted_def blank_def render_def returned_def
        build_scd_type1_prompt_def call_databricks_llm_def)

text \<open>
  C10. In the Type 1 flow the four metadata widgets play no part: two runs of \<^verbatim>\<open>run_app\<close>
  whose forms differ only in the effective-from, effective-to, current-flag and version
  values have the same outcome, draw the same page and make the same query, hence send
  the same prompt.
\<close>

theorem type1_flow_ignores_metadata:
  "Select_SCD_Type ui = ''SCD Type 1'' \<Longrightarrow>
   run_app dbx (ui\<lparr>Effective_From := ef, Effective_To := et, Current_Flag := cf,
                    Version_Column := vc\<rparr>) w = run_app dbx ui w"
  by (simp add: run_app_def)

theorem type1_flow_ignores_metadata_witness:
  "Select_SCD_Type pressed = ''SCD Type 1''
   \<and> run_app refusing (pressed\<lparr>Effective_From := ''a'', Effective_To := ''b'',
        Current_Flag := ''c'', Version_Column := ''d''\<rparr>) blank = run_app refusing pressed blank"
  using type1_flow_ignores_metadata [where ui = pressed and dbx = refusing and ef = "''a''"
      and et = "''b''" and cf = "''c''" and vc = "''d''" and w = blank]
  by (simp add: pressed_def)

end
